theory Spec2Isabelle
  imports Main
begin

section \<open>Versioning state engine of lib/api/apiUtils/object/versioning.js\<close>

text \<open>
  The JavaScript works on dynamically typed objects whose properties may be missing.
  A property that is missing or \<open>undefined\<close> is \<open>None\<close>; a property holding a
  value of the type its JSDoc gives is \<open>Some\<close> of it. The code tests most properties
  for truthiness only: a string is truthy when it is not empty, a boolean when it is
  \<open>true\<close>, an array or an object always.
\<close>

subsection \<open>Truthiness\<close>

definition truthy_str :: "string option \<Rightarrow> bool" where
  "truthy_str v = (case v of None \<Rightarrow> False | Some s \<Rightarrow> s \<noteq> [])"

definition truthy_bool :: "bool option \<Rightarrow> bool" where
  "truthy_bool v = (case v of None \<Rightarrow> False | Some b \<Rightarrow> b)"

subsection \<open>Data model\<close>

text \<open>A data location is an opaque reference object (always truthy).\<close>

datatype location = Location string

text \<open>The \<open>location\<close> property of object metadata: one reference or an array of them.\<close>

datatype location_field = Single location | Many "location list"

text \<open>Object metadata as parsed from JSON: the properties this module reads or writes.\<close>

record objMD =
  md_versionId :: "string option"
  md_uploadId :: "string option"
  md_isNull :: "bool option"
  md_isNullKey :: "bool option"
  md_nullVersionId :: "string option"
  md_nullUploadId :: "string option"
  md_location :: "location_field option"

text \<open>The state of the master version, as \<open>getMasterState\<close> builds it.\<close>

record masterState =
  mst_exists :: "bool option"
  mst_versionId :: "string option"
  mst_uploadId :: "string option"
  mst_isNull :: "bool option"
  mst_isNullKey :: "bool option"
  mst_nullVersionId :: "string option"
  mst_nullUploadId :: "string option"
  mst_objLocation :: "location list option"

text \<open>The \<open>options\<close> object handed to the caller for the actual write.\<close>

record putOptions =
  opt_versionId :: "string option"
  opt_isNull :: "bool option"
  opt_versioning :: "bool option"
  opt_dataToDelete :: "location list option"

record storeOptions =
  so_versionId :: "string option"
  so_isNullKey :: "bool option"

record delOptions =
  del_versionId :: "string option"
  del_deleteData :: "bool option"
  del_replayId :: "string option"

text \<open>
  The object \<open>{ options, storeOptions, delOptions }\<close> returned by
  \<open>processVersioningState\<close>; a property left out of the object literal is \<open>None\<close>.
\<close>

record decision =
  options :: putOptions
  storeOptions :: "storeOptions option"
  delOptions :: "delOptions option"

text \<open>The empty object literals \<open>const options = {}\<close> and \<open>const delOptions = {}\<close>.\<close>

definition emptyOptions :: putOptions where
  "emptyOptions = \<lparr>opt_versionId = None, opt_isNull = None, opt_versioning = None,
                   opt_dataToDelete = None\<rparr>"

definition emptyDelOptions :: delOptions where
  "emptyDelOptions = \<lparr>del_versionId = None, del_deleteData = None, del_replayId = None\<rparr>"

text \<open>\<open>Array.isArray(l) ? l : [l]\<close>\<close>

definition toArray :: "location_field \<Rightarrow> location list" where
  "toArray l = (case l of Single x \<Rightarrow> [x] | Many xs \<Rightarrow> xs)"

subsection \<open>getMasterState\<close>

text \<open>
  \<open>if (!objMD) return {}\<close>: without a record every property of the result is missing,
  \<open>exists\<close> included, and the callers' test \<open>if (mst.exists)\<close> reads it as false.
\<close>

definition getMasterState :: "objMD option \<Rightarrow> masterState" where
  "getMasterState objMD =
     (case objMD of
        None \<Rightarrow>
          \<lparr>mst_exists = None, mst_versionId = None, mst_uploadId = None, mst_isNull = None,
           mst_isNullKey = None, mst_nullVersionId = None, mst_nullUploadId = None,
           mst_objLocation = None\<rparr>
      | Some m \<Rightarrow>
          (let mst = \<lparr>mst_exists = Some True,
                      mst_versionId = md_versionId m,
                      mst_uploadId = md_uploadId m,
                      mst_isNull = md_isNull m,
                      mst_isNullKey = md_isNullKey m,
                      mst_nullVersionId = md_nullVersionId m,
                      mst_nullUploadId = md_nullUploadId m,
                      mst_objLocation = None\<rparr>
           in (case md_location m of
                 None \<Rightarrow> mst
               | Some l \<Rightarrow> mst\<lparr>mst_objLocation := Some (toArray l)\<rparr>)))"

subsection \<open>processVersioningState\<close>

text \<open>
  \<open>nonVersionedObjId\<close> is the module constant
  \<open>versionIdUtils.getInfVid(config.replicationGroupId)\<close>, computed by the external
  codec from the configuration; it is a parameter here. \<open>vstat\<close> is the \<open>Status\<close>
  string of the bucket's versioning configuration; the code compares it with
  \<open>'Suspended'\<close> and treats every other value as enabled.
\<close>

definition processVersioningState :: "string \<Rightarrow> masterState \<Rightarrow> string \<Rightarrow> decision" where
  "processVersioningState nonVersionedObjId mst vstat =
     (if truthy_bool (mst_isNullKey mst) \<or> truthy_bool (mst_isNull mst)
         \<or> \<not> truthy_str (mst_versionId mst)
      then
        (if vstat = ''Suspended''
         then
           (let opts = emptyOptions\<lparr>opt_versionId := Some '''', opt_isNull := Some True,
                                    opt_dataToDelete := mst_objLocation mst\<rparr>
            in if truthy_bool (mst_isNull mst)
               then \<lparr>options = opts, storeOptions = None,
                     delOptions = Some (emptyDelOptions\<lparr>del_versionId := mst_versionId mst\<rparr>)\<rparr>
               else if truthy_bool (mst_isNullKey mst)
               then \<lparr>options = opts, storeOptions = None,
                     delOptions = Some (emptyDelOptions\<lparr>del_versionId := Some ''null''\<rparr>)\<rparr>
               else \<lparr>options = opts, storeOptions = None, delOptions = None\<rparr>)
         else
           (let opts = emptyOptions\<lparr>opt_versioning := Some True\<rparr>
            in if truthy_bool (mst_exists mst)
               then \<lparr>options = opts,
                     storeOptions = Some
                       \<lparr>so_versionId =
                          (if truthy_bool (mst_isNull mst) \<or> truthy_bool (mst_isNullKey mst)
                           then mst_versionId mst else Some nonVersionedObjId),
                        so_isNullKey = Some True\<rparr>,
                     delOptions = None\<rparr>
               else \<lparr>options = opts, storeOptions = None, delOptions = None\<rparr>))
      else
        (let opts = (if vstat = ''Suspended''
                     then emptyOptions\<lparr>opt_versionId := Some '''', opt_isNull := Some True\<rparr>
                     else emptyOptions\<lparr>opt_versioning := Some True\<rparr>);
             nullVersionId = mst_nullVersionId mst
         in if truthy_str nullVersionId
            then
              (if vstat = ''Suspended''
               then
                 (let d = emptyDelOptions\<lparr>del_versionId := nullVersionId,
                                           del_deleteData := Some True\<rparr>;
                      d' = (if truthy_str (mst_nullUploadId mst)
                            then d\<lparr>del_replayId := mst_nullUploadId mst\<rparr> else d)
                  in \<lparr>options = opts, storeOptions = None, delOptions = Some d'\<rparr>)
               else
                 \<lparr>options = opts,
                  storeOptions = Some \<lparr>so_versionId = nullVersionId, so_isNullKey = Some True\<rparr>,
                  delOptions = Some (emptyDelOptions\<lparr>del_versionId := nullVersionId\<rparr>)\<rparr>)
            else if vstat = ''Suspended''
            then \<lparr>options = opts, storeOptions = None,
                  delOptions = Some (emptyDelOptions\<lparr>del_versionId := Some ''null'',
                                                     del_deleteData := Some True\<rparr>)\<rparr>
            else \<lparr>options = opts, storeOptions = None, delOptions = None\<rparr>))"

subsection \<open>The metadata store and its errors\<close>

text \<open>
  Arsenal errors, as far as this module tells them apart: \<open>err.is.NoSuchKey\<close>, the
  constant \<open>errors.InternalError\<close>, and any other error.
\<close>

datatype error = NoSuchKey | InternalError | ArsenalError string

text \<open>
  The metadata wrapper (\<open>require('../../../metadata/wrapper')\<close>) is an external
  service. Its three calls are parameters: each takes the state of the store and
  returns what it passes to its callback together with the new state. \<open>putObjectMD\<close>
  takes the \<open>versionId\<close> of its params object; \<open>getObjectMD\<close> and
  \<open>deleteObjectMD\<close> receive the whole \<open>delOptions\<close> object. The logger has no effect
  on results and is left out.
\<close>

record 's metadata =
  putObjectMD :: "string \<Rightarrow> string \<Rightarrow> objMD \<Rightarrow> string \<Rightarrow> 's \<Rightarrow> error option \<times> 's"
  getObjectMD :: "string \<Rightarrow> string \<Rightarrow> delOptions \<Rightarrow> 's \<Rightarrow> (error + objMD) \<times> 's"
  deleteObjectMD :: "string \<Rightarrow> string \<Rightarrow> delOptions \<Rightarrow> 's \<Rightarrow> error option \<times> 's"

record versioningConfiguration =
  Status :: string

record bucketMD =
  bkt_versioningConfiguration :: "versioningConfiguration option"

definition getVersioningConfiguration :: "bucketMD \<Rightarrow> versioningConfiguration option" where
  "getVersioningConfiguration b = bkt_versioningConfiguration b"

subsection \<open>Helpers of the write path\<close>

definition u_storeNullVersionMD ::
  "'s metadata \<Rightarrow> string \<Rightarrow> string \<Rightarrow> objMD \<Rightarrow> 's \<Rightarrow> error option \<times> 's" where
  "u_storeNullVersionMD md bucketName objKey m s =
     putObjectMD md bucketName objKey m ''null'' s"

text \<open>Calls back with \<open>(err, dataToDelete)\<close>.\<close>

definition u_getNullVersionLocationsToDelete ::
  "'s metadata \<Rightarrow> string \<Rightarrow> string \<Rightarrow> delOptions \<Rightarrow> masterState \<Rightarrow> 's
     \<Rightarrow> (error option \<times> location list option) \<times> 's" where
  "u_getNullVersionLocationsToDelete md bucketName objKey opts mst s =
     (if del_versionId opts = mst_versionId mst
      then ((None, mst_objLocation mst), s)
      else
        (case getObjectMD md bucketName objKey opts s of
           (Inl err, s') \<Rightarrow>
             (if err \<noteq> NoSuchKey then ((Some err, None), s') else ((None, None), s'))
         | (Inr versionMD, s') \<Rightarrow>
             (case md_location versionMD of
                None \<Rightarrow> ((None, None), s')
              | Some l \<Rightarrow> ((None, Some (toArray l)), s'))))"

definition u_deleteNullVersionMD ::
  "'s metadata \<Rightarrow> string \<Rightarrow> string \<Rightarrow> delOptions \<Rightarrow> 's \<Rightarrow> error option \<times> 's" where
  "u_deleteNullVersionMD md bucketName objKey opts s =
     deleteObjectMD md bucketName objKey opts s"

subsection \<open>versioningPreprocessing\<close>

text \<open>
  \<open>Object.assign({}, objMD, storeOptions)\<close>: a missing source object contributes
  nothing; both properties of \<open>storeOptions\<close> are always assigned and so overwrite.
\<close>

definition emptyObjMD :: objMD where
  "emptyObjMD = \<lparr>md_versionId = None, md_uploadId = None, md_isNull = None,
                 md_isNullKey = None, md_nullVersionId = None, md_nullUploadId = None,
                 md_location = None\<rparr>"

definition assignStoreOptions :: "objMD option \<Rightarrow> storeOptions \<Rightarrow> objMD" where
  "assignStoreOptions objMD so =
     (case objMD of None \<Rightarrow> emptyObjMD | Some m \<Rightarrow> m)
       \<lparr>md_versionId := so_versionId so, md_isNullKey := so_isNullKey so\<rparr>"

text \<open>The three tasks of \<open>async.series\<close>; each yields the error it passes to \<open>next\<close>.\<close>

definition storeVersion ::
  "'s metadata \<Rightarrow> string \<Rightarrow> string \<Rightarrow> objMD option \<Rightarrow> storeOptions option \<Rightarrow> 's
     \<Rightarrow> error option \<times> 's" where
  "storeVersion md bucketName objectKey objMD so s =
     (case so of
        None \<Rightarrow> (None, s)
      | Some so' \<Rightarrow>
          u_storeNullVersionMD md bucketName objectKey (assignStoreOptions objMD so') s)"

text \<open>The second task may set \<open>options.dataToDelete\<close>, so it returns the options too.\<close>

definition getNullVersionLocationsToDelete ::
  "'s metadata \<Rightarrow> string \<Rightarrow> string \<Rightarrow> delOptions option \<Rightarrow> masterState \<Rightarrow> putOptions \<Rightarrow> 's
     \<Rightarrow> (error option \<times> putOptions) \<times> 's" where
  "getNullVersionLocationsToDelete md bucketName objectKey dopts mst opts s =
     (case dopts of
        None \<Rightarrow> ((None, opts), s)
      | Some d \<Rightarrow>
          (if \<not> truthy_bool (del_deleteData d)
           then ((None, opts), s)
           else
             (case u_getNullVersionLocationsToDelete md bucketName objectKey d mst s of
                ((Some err, nullDataToDelete), s') \<Rightarrow> ((Some err, opts), s')
              | ((None, nullDataToDelete), s') \<Rightarrow>
                  (case nullDataToDelete of
                     None \<Rightarrow> ((None, opts), s')
                   | Some ls \<Rightarrow> ((None, opts\<lparr>opt_dataToDelete := Some ls\<rparr>), s')))))"

definition deleteNullVersion ::
  "'s metadata \<Rightarrow> string \<Rightarrow> string \<Rightarrow> delOptions option \<Rightarrow> 's \<Rightarrow> error option \<times> 's" where
  "deleteNullVersion md bucketName objectKey dopts s =
     (case dopts of
        None \<Rightarrow> (None, s)
      | Some d \<Rightarrow>
          (case u_deleteNullVersionMD md bucketName objectKey d s of
             (Some err, s') \<Rightarrow>
               (if err = NoSuchKey then (None, s') else (Some InternalError, s'))
           | (None, s') \<Rightarrow> (None, s')))"

text \<open>
  The result is what the callback receives, \<open>(err, options)\<close>, and the state of the
  store afterwards. \<open>async.series\<close> runs the tasks in order and stops at the first
  error; the final callback always passes \<open>options\<close> along.
\<close>

definition versioningPreprocessing ::
  "string \<Rightarrow> 's metadata \<Rightarrow> string \<Rightarrow> bucketMD \<Rightarrow> string \<Rightarrow> objMD option \<Rightarrow> 's
     \<Rightarrow> (error option \<times> putOptions) \<times> 's" where
  "versioningPreprocessing nonVersionedObjId md bucketName bucketMD objectKey objMD s =
     (let mst = getMasterState objMD
      in case getVersioningConfiguration bucketMD of
           None \<Rightarrow> ((None, emptyOptions\<lparr>opt_dataToDelete := mst_objLocation mst\<rparr>), s)
         | Some vCfg \<Rightarrow>
             (let dec = processVersioningState nonVersionedObjId mst (Status vCfg)
              in case storeVersion md bucketName objectKey objMD (storeOptions dec) s of
                   (Some err, s1) \<Rightarrow> ((Some err, options dec), s1)
                 | (None, s1) \<Rightarrow>
                     (case getNullVersionLocationsToDelete md bucketName objectKey
                             (delOptions dec) mst (options dec) s1 of
                        ((Some err, opts), s2) \<Rightarrow> ((Some err, opts), s2)
                      | ((None, opts), s2) \<Rightarrow>
                          (case deleteNullVersion md bucketName objectKey (delOptions dec) s2 of
                             (err, s3) \<Rightarrow> ((err, opts), s3)))))"

subsection \<open>preprocessingVersioningDelete\<close>

record deleteOptions =
  dd_deleteData :: "bool option"
  dd_replayId :: "string option"
  dd_versionId :: "string option"
  dd_isNull :: "bool option"

definition emptyDeleteOptions :: deleteOptions where
  "emptyDeleteOptions = \<lparr>dd_deleteData = None, dd_replayId = None, dd_versionId = None,
                         dd_isNull = None\<rparr>"

text \<open>
  \<open>objectMD\<close> is an object here (its JSDoc type; the function reads its properties
  unguarded). The callback always receives \<open>(null, options)\<close>.
\<close>

definition preprocessingVersioningDelete ::
  "string \<Rightarrow> bucketMD \<Rightarrow> objMD \<Rightarrow> string option \<Rightarrow> error option \<times> deleteOptions" where
  "preprocessingVersioningDelete bucketName bucketMD objectMD reqVersionId =
     (let o1 = (if getVersioningConfiguration bucketMD = None \<or> truthy_str reqVersionId
                then
                  (let o0 = emptyDeleteOptions\<lparr>dd_deleteData := Some True\<rparr>
                   in if truthy_str (md_uploadId objectMD)
                      then o0\<lparr>dd_replayId := md_uploadId objectMD\<rparr> else o0)
                else emptyDeleteOptions);
          o2 = (if getVersioningConfiguration bucketMD \<noteq> None
                then
                  (if truthy_str reqVersionId
                   then
                     (if reqVersionId = Some ''null''
                      then
                        (if md_versionId objectMD \<noteq> None
                         then
                           (if truthy_bool (md_isNull objectMD)
                            then o1\<lparr>dd_versionId := md_versionId objectMD\<rparr>
                            else o1\<lparr>dd_versionId := Some ''null''\<rparr>)
                         else o1)
                      else o1\<lparr>dd_versionId := reqVersionId\<rparr>)
                   else o1\<lparr>dd_isNull := Some True\<rparr>)
                else o1)
      in (None, o2))"

subsection \<open>A recording store, to run the write path on concrete inputs\<close>

text \<open>
  The state of this store is the list of calls made so far; every call answers with a
  fixed result.
\<close>

datatype call =
    PutCall string string objMD string
  | GetCall string string delOptions
  | DeleteCall string string delOptions

definition recordingStore ::
  "error option \<Rightarrow> error + objMD \<Rightarrow> error option \<Rightarrow> (call list) metadata" where
  "recordingStore putResult getResult deleteResult =
     \<lparr>putObjectMD = (\<lambda>b k m v calls. (putResult, calls @ [PutCall b k m v])),
      getObjectMD = (\<lambda>b k d calls. (getResult, calls @ [GetCall b k d])),
      deleteObjectMD = (\<lambda>b k d calls. (deleteResult, calls @ [DeleteCall b k d]))\<rparr>"

subsection \<open>Example inputs\<close>

text \<open>Object metadata and buckets on which the theorems below are run.\<close>

definition legacyNullMD :: objMD where
  "legacyNullMD = emptyObjMD\<lparr>md_versionId := Some ''v1'', md_isNull := Some True,
                             md_location := Some (Single (Location ''loc1''))\<rparr>"

definition preVersioningMD :: objMD where
  "preVersioningMD = emptyObjMD\<lparr>md_location := Some (Single (Location ''loc1''))\<rparr>"

definition versionedMD :: objMD where
  "versionedMD = emptyObjMD\<lparr>md_versionId := Some ''v2'', md_nullVersionId := Some ''v1'',
                            md_nullUploadId := Some ''u1'',
                            md_location := Some (Many [Location ''loc2'', Location ''loc3''])\<rparr>"

definition selfReferringMD :: objMD where
  "selfReferringMD = versionedMD\<lparr>md_nullVersionId := Some ''v2''\<rparr>"

definition enabledBucket :: bucketMD where
  "enabledBucket = \<lparr>bkt_versioningConfiguration = Some \<lparr>Status = ''Enabled''\<rparr>\<rparr>"

definition suspendedBucket :: bucketMD where
  "suspendedBucket = \<lparr>bkt_versioningConfiguration = Some \<lparr>Status = ''Suspended''\<rparr>\<rparr>"

section \<open>Properties\<close>

subsection \<open>Shared lemmas\<close>

lemmas pvs_defs = processVersioningState_def Let_def emptyOptions_def emptyDelOptions_def

lemmas pvd_defs = preprocessingVersioningDelete_def Let_def emptyDeleteOptions_def

lemma versioningPreprocessing_series:
  assumes "getVersioningConfiguration bucketMD = Some vCfg"
  shows "versioningPreprocessing nv md bn bucketMD key objMD s =
     (let mst = getMasterState objMD;
          dec = processVersioningState nv mst (Status vCfg)
      in case storeVersion md bn key objMD (storeOptions dec) s of
           (Some err, s1) \<Rightarrow> ((Some err, options dec), s1)
         | (None, s1) \<Rightarrow>
             (case getNullVersionLocationsToDelete md bn key (delOptions dec) mst
                     (options dec) s1 of
                ((Some err, opts), s2) \<Rightarrow> ((Some err, opts), s2)
              | ((None, opts), s2) \<Rightarrow>
                  (case deleteNullVersion md bn key (delOptions dec) s2 of
                     (err, s3) \<Rightarrow> ((err, opts), s3))))"
  using assms by (simp add: versioningPreprocessing_def Let_def)

lemma store_failure_aborts:
  assumes cfg: "getVersioningConfiguration bucketMD = Some vCfg"
    and so: "storeOptions (processVersioningState nv (getMasterState objMD) (Status vCfg))
             = Some so"
    and put: "putObjectMD md bn key (assignStoreOptions objMD so) ''null'' s = (Some e, s1)"
  shows "versioningPreprocessing nv md bn bucketMD key objMD s
           = ((Some e, options (processVersioningState nv (getMasterState objMD)
                                  (Status vCfg))), s1)"
  using so put
  by (simp add: versioningPreprocessing_series[OF cfg] Let_def storeVersion_def
        u_storeNullVersionMD_def)

lemma delete_failure:
  assumes cfg: "getVersioningConfiguration bucketMD = Some vCfg"
    and st: "storeVersion md bn key objMD
               (storeOptions (processVersioningState nv (getMasterState objMD) (Status vCfg))) s
             = (None, s1)"
    and res: "getNullVersionLocationsToDelete md bn key
               (delOptions (processVersioningState nv (getMasterState objMD) (Status vCfg)))
               (getMasterState objMD)
               (options (processVersioningState nv (getMasterState objMD) (Status vCfg))) s1
             = ((None, opts), s2)"
    and d: "delOptions (processVersioningState nv (getMasterState objMD) (Status vCfg)) = Some d"
    and del: "deleteObjectMD md bn key d s2 = (Some e, s3)"
  shows "versioningPreprocessing nv md bn bucketMD key objMD s
           = ((if e = NoSuchKey then None else Some InternalError, opts), s3)"
proof -
  have "deleteNullVersion md bn key (Some d) s2
          = (if e = NoSuchKey then None else Some InternalError, s3)"
    using del by (simp add: deleteNullVersion_def u_deleteNullVersionMD_def)
  then show ?thesis
    using st res d by (simp add: versioningPreprocessing_series[OF cfg] Let_def)
qed

text \<open>The second task, case by case.\<close>

lemma step2_skipped:
  "dopts = None \<or> (\<exists>d. dopts = Some d \<and> \<not> truthy_bool (del_deleteData d))
   \<Longrightarrow> getNullVersionLocationsToDelete md bn key dopts mst opts s = ((None, opts), s)"
  by (auto simp: getNullVersionLocationsToDelete_def)

lemma step2_master:
  "dopts = Some d \<Longrightarrow> truthy_bool (del_deleteData d) \<Longrightarrow> del_versionId d = mst_versionId mst
   \<Longrightarrow> getNullVersionLocationsToDelete md bn key dopts mst opts s =
       ((None, case mst_objLocation mst of None \<Rightarrow> opts
               | Some ls \<Rightarrow> opts\<lparr>opt_dataToDelete := Some ls\<rparr>), s)"
  by (simp add: getNullVersionLocationsToDelete_def u_getNullVersionLocationsToDelete_def
        split: option.split)

lemma step2_read:
  "dopts = Some d \<Longrightarrow> truthy_bool (del_deleteData d) \<Longrightarrow> del_versionId d \<noteq> mst_versionId mst
   \<Longrightarrow> getObjectMD md bn key d s = (r, s')
   \<Longrightarrow> getNullVersionLocationsToDelete md bn key dopts mst opts s =
       (case r of
          Inl e \<Rightarrow> (if e = NoSuchKey then ((None, opts), s') else ((Some e, opts), s'))
        | Inr versionMD \<Rightarrow>
            ((None, case md_location versionMD of None \<Rightarrow> opts
                    | Some l \<Rightarrow> opts\<lparr>opt_dataToDelete := Some (toArray l)\<rparr>), s'))"
  by (simp add: getNullVersionLocationsToDelete_def u_getNullVersionLocationsToDelete_def
        split: option.split sum.split)

text \<open>
  Where the second task does not read, the outcome of the whole write path is the same
  whatever \<open>getObjectMD\<close> would have answered.
\<close>

lemma step2_no_read:
  assumes "dopts = None
           \<or> (\<exists>d. dopts = Some d
                  \<and> (\<not> truthy_bool (del_deleteData d) \<or> del_versionId d = mst_versionId mst))"
  shows "getNullVersionLocationsToDelete (md\<lparr>getObjectMD := g\<rparr>) bn key dopts mst opts s
         = getNullVersionLocationsToDelete md bn key dopts mst opts s"
  using assms
  by (auto simp: getNullVersionLocationsToDelete_def u_getNullVersionLocationsToDelete_def)

lemma storeVersion_no_read:
  "storeVersion (md\<lparr>getObjectMD := g\<rparr>) bn key objMD so s = storeVersion md bn key objMD so s"
  by (simp add: storeVersion_def u_storeNullVersionMD_def split: option.split)

lemma deleteNullVersion_no_read:
  "deleteNullVersion (md\<lparr>getObjectMD := g\<rparr>) bn key dopts s
   = deleteNullVersion md bn key dopts s"
  by (simp add: deleteNullVersion_def u_deleteNullVersionMD_def split: option.split)

lemma versioningPreprocessing_no_read:
  assumes cfg: "getVersioningConfiguration bucketMD = Some vCfg"
    and nr: "delOptions (processVersioningState nv (getMasterState objMD) (Status vCfg)) = None
           \<or> (\<exists>d. delOptions (processVersioningState nv (getMasterState objMD) (Status vCfg))
                     = Some d
                  \<and> (\<not> truthy_bool (del_deleteData d)
                       \<or> del_versionId d = mst_versionId (getMasterState objMD)))"
  shows "versioningPreprocessing nv (md\<lparr>getObjectMD := g\<rparr>) bn bucketMD key objMD s
         = versioningPreprocessing nv md bn bucketMD key objMD s"
  by (simp only: versioningPreprocessing_series[OF cfg] Let_def step2_no_read[OF nr]
        storeVersion_no_read deleteNullVersion_no_read)

subsection \<open>The master state extractor\<close>

text \<open>
  C9. \<open>getMasterState\<close> without a metadata record returns the state whose \<open>exists\<close>
  reads as false and whose every other field is absent (the JavaScript returns \<open>{}\<close>,
  so \<open>exists\<close> itself is a missing property, which is how it reads as false). With a
  record it copies \<open>versionId\<close>, \<open>uploadId\<close>, \<open>isNull\<close>, \<open>isNullKey\<close>,
  \<open>nullVersionId\<close> and \<open>nullUploadId\<close> verbatim and turns \<open>location\<close>, one
  reference or a sequence, into the sequence \<open>objLocation\<close>, left out when there is no
  location. The function has no failing branch: it is a total transform.
\<close>

theorem getMasterState_contract:
  "\<not> truthy_bool (mst_exists (getMasterState None))
   \<and> getMasterState None =
       \<lparr>mst_exists = None, mst_versionId = None, mst_uploadId = None, mst_isNull = None,
        mst_isNullKey = None, mst_nullVersionId = None, mst_nullUploadId = None,
        mst_objLocation = None\<rparr>
   \<and> getMasterState (Some m) =
       \<lparr>mst_exists = Some True, mst_versionId = md_versionId m, mst_uploadId = md_uploadId m,
        mst_isNull = md_isNull m, mst_isNullKey = md_isNullKey m,
        mst_nullVersionId = md_nullVersionId m, mst_nullUploadId = md_nullUploadId m,
        mst_objLocation =
          (case md_location m of
             None \<Rightarrow> None
           | Some (Single l) \<Rightarrow> Some [l]
           | Some (Many ls) \<Rightarrow> Some ls)\<rparr>"
  by (simp add: getMasterState_def truthy_bool_def toArray_def Let_def
           split: option.split location_field.split)

subsection \<open>The policy engine\<close>

text \<open>
  C1, as the code has it. For a master state that is absent, is a null version
  (\<open>isNull\<close> or \<open>isNullKey\<close>) or has no \<open>versionId\<close>, under \<open>Suspended\<close>:
  the put options are \<open>versionId = ""\<close>, \<open>isNull = true\<close> and
  \<open>dataToDelete = mst.objLocation\<close>, in every sub-case, the legacy one included;
  nothing is stored. With a legacy null version (\<open>isNull\<close>) the delete options are
  \<open>{versionId: mst.versionId}\<close>; with only the null-key form they are
  \<open>{versionId: "null"}\<close>; in both \<open>deleteData\<close> is unset; with neither form there
  are no delete options.
\<close>

theorem processVersioningState_null_master_suspended:
  assumes "truthy_bool (mst_isNullKey mst) \<or> truthy_bool (mst_isNull mst)
           \<or> \<not> truthy_str (mst_versionId mst)"
  shows "options (processVersioningState nv mst ''Suspended'') =
           \<lparr>opt_versionId = Some '''', opt_isNull = Some True, opt_versioning = None,
            opt_dataToDelete = mst_objLocation mst\<rparr>
         \<and> storeOptions (processVersioningState nv mst ''Suspended'') = None
         \<and> delOptions (processVersioningState nv mst ''Suspended'') =
             (if truthy_bool (mst_isNull mst)
              then Some \<lparr>del_versionId = mst_versionId mst, del_deleteData = None,
                         del_replayId = None\<rparr>
              else if truthy_bool (mst_isNullKey mst)
              then Some \<lparr>del_versionId = Some ''null'', del_deleteData = None,
                         del_replayId = None\<rparr>
              else None)"
  using assms by (simp add: pvs_defs)

text \<open>
  C1 as stated says that with a legacy null version the engine schedules the delete
  by version id instead of setting \<open>dataToDelete\<close> itself, the delete path resolving
  the locations. On a legacy null master with one location the engine does set
  \<open>dataToDelete\<close> to that location, and its delete options carry no \<open>deleteData\<close>,
  so no locations are resolved for them later.
\<close>

theorem processVersioningState_legacy_null_sets_dataToDelete:
  "truthy_bool (mst_isNull (getMasterState (Some
      \<lparr>md_versionId = Some ''v1'', md_uploadId = None, md_isNull = Some True,
       md_isNullKey = None, md_nullVersionId = None, md_nullUploadId = None,
       md_location = Some (Single (Location ''loc1''))\<rparr>)))
   \<and> opt_dataToDelete (options (processVersioningState ''inf'' (getMasterState (Some
      \<lparr>md_versionId = Some ''v1'', md_uploadId = None, md_isNull = Some True,
       md_isNullKey = None, md_nullVersionId = None, md_nullUploadId = None,
       md_location = Some (Single (Location ''loc1''))\<rparr>)) ''Suspended''))
     = Some [Location ''loc1'']
   \<and> delOptions (processVersioningState ''inf'' (getMasterState (Some
      \<lparr>md_versionId = Some ''v1'', md_uploadId = None, md_isNull = Some True,
       md_isNullKey = None, md_nullVersionId = None, md_nullUploadId = None,
       md_location = Some (Single (Location ''loc1''))\<rparr>)) ''Suspended'')
     = Some \<lparr>del_versionId = Some ''v1'', del_deleteData = None, del_replayId = None\<rparr>"
  by (simp add: pvs_defs getMasterState_def toArray_def truthy_bool_def truthy_str_def)

text \<open>
  C3. For a master state that is absent, is a null version or has no \<open>versionId\<close>,
  under \<open>Enabled\<close>: \<open>putOptions.versioning\<close> is true. If the master exists, the store
  options are \<open>isNullKey = true\<close> with the master's own \<open>versionId\<close> when it is a
  null version and the reserved infinite identifier otherwise (so an existing
  pre-versioning object with no \<open>versionId\<close> gets the reserved identifier); if it does not
  exist there are no store options.
\<close>

theorem processVersioningState_null_master_enabled:
  assumes "truthy_bool (mst_isNullKey mst) \<or> truthy_bool (mst_isNull mst)
           \<or> \<not> truthy_str (mst_versionId mst)"
  shows "opt_versioning (options (processVersioningState nv mst ''Enabled'')) = Some True
         \<and> storeOptions (processVersioningState nv mst ''Enabled'') =
             (if truthy_bool (mst_exists mst)
              then Some \<lparr>so_versionId =
                           (if truthy_bool (mst_isNull mst) \<or> truthy_bool (mst_isNullKey mst)
                            then mst_versionId mst else Some nv),
                         so_isNullKey = Some True\<rparr>
              else None)"
  using assms by (simp add: pvs_defs)

text \<open>
  C4. For a master that is a real version (\<open>versionId\<close> set, neither \<open>isNull\<close> nor
  \<open>isNullKey\<close>) with \<open>nullVersionId\<close> set, under \<open>Enabled\<close>: the decision has
  \<open>storeOptions = {versionId: nullVersionId, isNullKey: true}\<close> and
  \<open>deleteOptions = {versionId: nullVersionId}\<close>.
\<close>

theorem processVersioningState_legacy_migration:
  assumes "truthy_str (mst_versionId mst)" "\<not> truthy_bool (mst_isNull mst)"
    "\<not> truthy_bool (mst_isNullKey mst)" "truthy_str (mst_nullVersionId mst)"
  shows "storeOptions (processVersioningState nv mst ''Enabled'') =
           Some \<lparr>so_versionId = mst_nullVersionId mst, so_isNullKey = Some True\<rparr>
         \<and> delOptions (processVersioningState nv mst ''Enabled'') =
           Some \<lparr>del_versionId = mst_nullVersionId mst, del_deleteData = None,
                 del_replayId = None\<rparr>"
  using assms by (simp add: pvs_defs)

text \<open>
  C5. For a master that is a real version, under \<open>Suspended\<close>: the put options are
  exactly \<open>{versionId: "", isNull: true}\<close>, without \<open>dataToDelete\<close>. With
  \<open>nullVersionId\<close> set the delete options are
  \<open>{versionId: nullVersionId, deleteData: true}\<close>, with \<open>replayId = nullUploadId\<close>
  when that is set and no \<open>replayId\<close> otherwise; without \<open>nullVersionId\<close> they are
  \<open>{versionId: "null", deleteData: true}\<close>.
\<close>

theorem processVersioningState_versioned_master_suspended:
  assumes "truthy_str (mst_versionId mst)" "\<not> truthy_bool (mst_isNull mst)"
    "\<not> truthy_bool (mst_isNullKey mst)"
  shows "options (processVersioningState nv mst ''Suspended'') =
           \<lparr>opt_versionId = Some '''', opt_isNull = Some True, opt_versioning = None,
            opt_dataToDelete = None\<rparr>
         \<and> delOptions (processVersioningState nv mst ''Suspended'') =
             (if truthy_str (mst_nullVersionId mst)
              then Some \<lparr>del_versionId = mst_nullVersionId mst, del_deleteData = Some True,
                         del_replayId = (if truthy_str (mst_nullUploadId mst)
                                         then mst_nullUploadId mst else None)\<rparr>
              else Some \<lparr>del_versionId = Some ''null'', del_deleteData = Some True,
                         del_replayId = None\<rparr>)"
  using assms by (simp add: pvs_defs)

text \<open>
  C10. Whatever the master state and the status string: a decision with store options
  has \<open>storeOptions.isNullKey = true\<close> and \<open>putOptions.versioning = true\<close>, was not
  made under \<open>Suspended\<close>, and its delete options, if any, do not have \<open>deleteData\<close>
  set.
\<close>

theorem processVersioningState_storeOptions_invariant:
  assumes "storeOptions (processVersioningState nv mst vstat) = Some so"
  shows "so_isNullKey so = Some True
         \<and> opt_versioning (options (processVersioningState nv mst vstat)) = Some True
         \<and> vstat \<noteq> ''Suspended''
         \<and> (case delOptions (processVersioningState nv mst vstat) of
               None \<Rightarrow> True
             | Some d \<Rightarrow> \<not> truthy_bool (del_deleteData d))"
  using assms by (auto simp add: pvs_defs truthy_bool_def split: if_splits)

subsection \<open>Delete preprocessing\<close>

text \<open>
  C8. \<open>preprocessingVersioningDelete\<close> always calls back without an error. It sets
  \<open>deleteData = true\<close> exactly when the bucket has no versioning configuration or a
  version id is requested, and then \<open>replayId\<close> is the object's \<open>uploadId\<close> if it has
  one; on a versioning-configured bucket with no version id requested it leaves
  \<open>deleteData\<close> unset and sets \<open>isNull = true\<close>.
\<close>

theorem preprocessingVersioningDelete_deleteData:
  "fst (preprocessingVersioningDelete bn bmd omd req) = None
   \<and> dd_deleteData (snd (preprocessingVersioningDelete bn bmd omd req)) =
       (if getVersioningConfiguration bmd = None \<or> truthy_str req then Some True else None)
   \<and> dd_replayId (snd (preprocessingVersioningDelete bn bmd omd req)) =
       (if (getVersioningConfiguration bmd = None \<or> truthy_str req)
           \<and> truthy_str (md_uploadId omd)
        then md_uploadId omd else None)
   \<and> dd_isNull (snd (preprocessingVersioningDelete bn bmd omd req)) =
       (if getVersioningConfiguration bmd \<noteq> None \<and> \<not> truthy_str req
        then Some True else None)"
  by (simp add: pvd_defs)

text \<open>
  C2, as the code has it. On a versioning-configured bucket with requested version id
  \<open>"null"\<close>, \<open>deleteData\<close> is true, and the target is: no \<open>versionId\<close> at all when
  the object metadata has none (the function is not told whether a null key exists);
  the object's own \<open>versionId\<close> when it has one and is a null version (\<open>isNull\<close>);
  \<open>"null"\<close> when it has one and is not.
\<close>

theorem preprocessingVersioningDelete_null_request:
  assumes "getVersioningConfiguration bmd = Some vCfg" "req = Some ''null''"
  shows "dd_deleteData (snd (preprocessingVersioningDelete bn bmd omd req)) = Some True
   \<and> dd_versionId (snd (preprocessingVersioningDelete bn bmd omd req)) =
       (if md_versionId omd = None then None
        else if truthy_bool (md_isNull omd) then md_versionId omd
        else Some ''null'')"
  using assms by (simp add: pvd_defs truthy_str_def)

text \<open>
  C2 as stated expects \<open>{versionId: "null", deleteData: true}\<close> for an object without a
  \<open>versionId\<close>. For such an object the decision is \<open>{deleteData: true}\<close>, with no
  \<open>versionId\<close>, whether or not its metadata carries the \<open>isNullKey\<close> flag.
\<close>

theorem preprocessingVersioningDelete_null_request_no_versionId:
  "preprocessingVersioningDelete ''bucket''
     \<lparr>bkt_versioningConfiguration = Some \<lparr>Status = ''Enabled''\<rparr>\<rparr>
     \<lparr>md_versionId = None, md_uploadId = None, md_isNull = None, md_isNullKey = None,
      md_nullVersionId = None, md_nullUploadId = None,
      md_location = Some (Single (Location ''loc1''))\<rparr>
     (Some ''null'')
   = (None, \<lparr>dd_deleteData = Some True, dd_replayId = None, dd_versionId = None,
             dd_isNull = None\<rparr>)
   \<and> preprocessingVersioningDelete ''bucket''
     \<lparr>bkt_versioningConfiguration = Some \<lparr>Status = ''Enabled''\<rparr>\<rparr>
     \<lparr>md_versionId = None, md_uploadId = None, md_isNull = None, md_isNullKey = Some True,
      md_nullVersionId = None, md_nullUploadId = None,
      md_location = Some (Single (Location ''loc1''))\<rparr>
     (Some ''null'')
   = (None, \<lparr>dd_deleteData = Some True, dd_replayId = None, dd_versionId = None,
             dd_isNull = None\<rparr>)"
  by (simp add: pvd_defs truthy_str_def getVersioningConfiguration_def)

subsection \<open>The write path\<close>

text \<open>
  C6. On a versioning-configured bucket: when the decision has store options and the
  store's put fails, \<open>versioningPreprocessing\<close> calls back with that very error and
  the store is left as the put left it (no later task runs). When the first two tasks
  went through and the delete fails, a \<open>NoSuchKey\<close> error gives a callback without
  error, with the put options; any other error gives \<open>InternalError\<close>.
\<close>

theorem versioningPreprocessing_failures:
  assumes cfg: "getVersioningConfiguration bucketMD = Some vCfg"
    and dec: "dec = processVersioningState nv (getMasterState objMD) (Status vCfg)"
  shows "(\<forall>so e s1. storeOptions dec = Some so
            \<and> putObjectMD md bn key (assignStoreOptions objMD so) ''null'' s = (Some e, s1)
          \<longrightarrow> versioningPreprocessing nv md bn bucketMD key objMD s
                = ((Some e, options dec), s1))
       \<and> (\<forall>s1 opts s2 d e s3.
            storeVersion md bn key objMD (storeOptions dec) s = (None, s1)
            \<and> getNullVersionLocationsToDelete md bn key (delOptions dec)
                 (getMasterState objMD) (options dec) s1 = ((None, opts), s2)
            \<and> delOptions dec = Some d
            \<and> deleteObjectMD md bn key d s2 = (Some e, s3)
          \<longrightarrow> versioningPreprocessing nv md bn bucketMD key objMD s
                = ((if e = NoSuchKey then None else Some InternalError, opts), s3))"
  unfolding dec
proof (intro conjI allI impI)
  fix so e s1
  assume a: "storeOptions (processVersioningState nv (getMasterState objMD) (Status vCfg))
               = Some so
             \<and> putObjectMD md bn key (assignStoreOptions objMD so) ''null'' s = (Some e, s1)"
  show "versioningPreprocessing nv md bn bucketMD key objMD s
          = ((Some e, options (processVersioningState nv (getMasterState objMD)
                                 (Status vCfg))), s1)"
    by (rule store_failure_aborts[OF cfg a[THEN conjunct1] a[THEN conjunct2]])
next
  fix s1 opts s2 d e s3
  assume a: "storeVersion md bn key objMD
            (storeOptions (processVersioningState nv (getMasterState objMD) (Status vCfg))) s
            = (None, s1)
          \<and> getNullVersionLocationsToDelete md bn key
              (delOptions (processVersioningState nv (getMasterState objMD) (Status vCfg)))
              (getMasterState objMD)
              (options (processVersioningState nv (getMasterState objMD) (Status vCfg))) s1
            = ((None, opts), s2)
          \<and> delOptions (processVersioningState nv (getMasterState objMD) (Status vCfg))
            = Some d
          \<and> deleteObjectMD md bn key d s2 = (Some e, s3)"
  note st = a[THEN conjunct1]
    and res = a[THEN conjunct2, THEN conjunct1]
    and d = a[THEN conjunct2, THEN conjunct2, THEN conjunct1]
    and del = a[THEN conjunct2, THEN conjunct2, THEN conjunct2]
  show "versioningPreprocessing nv md bn bucketMD key objMD s
           = ((if e = NoSuchKey then None else Some InternalError, opts), s3)"
    by (rule delete_failure[OF cfg st res d del])
qed

text \<open>
  C7. On a versioning-configured bucket, after the first task went through:
  \<^item> without delete options, or with \<open>deleteData\<close> unset, the second task does nothing:
    the delete task runs on the store as the first task left it, and the put options
    are the decision's;
  \<^item> with \<open>deleteData\<close> set and the version to delete equal to the master's
    \<open>versionId\<close>, the master's \<open>objLocation\<close>, if any, becomes
    \<open>dataToDelete\<close>, again on the store as the first task left it;
  \<^item> in both cases the outcome does not depend on what \<open>getObjectMD\<close> would answer;
  \<^item> with \<open>deleteData\<close> set and another version to delete, the version's metadata is
    read: \<open>NoSuchKey\<close> lets the delete task run with the put options unchanged; any
    other error ends the operation with that error; metadata with a location sets
    \<open>dataToDelete\<close> to it, as a sequence.
\<close>

theorem versioningPreprocessing_resolve_locations:
  assumes cfg: "getVersioningConfiguration bucketMD = Some vCfg"
    and mst: "mst = getMasterState objMD"
    and dec: "dec = processVersioningState nv mst (Status vCfg)"
    and st: "storeVersion md bn key objMD (storeOptions dec) s = (None, s1)"
  shows "(delOptions dec = None
            \<or> (\<exists>d. delOptions dec = Some d \<and> \<not> truthy_bool (del_deleteData d))
          \<longrightarrow> versioningPreprocessing nv md bn bucketMD key objMD s =
                (case deleteNullVersion md bn key (delOptions dec) s1 of
                   (err, s3) \<Rightarrow> ((err, options dec), s3)))
       \<and> (\<forall>d. delOptions dec = Some d \<and> truthy_bool (del_deleteData d)
               \<and> del_versionId d = mst_versionId mst
          \<longrightarrow> versioningPreprocessing nv md bn bucketMD key objMD s =
                (case deleteNullVersion md bn key (delOptions dec) s1 of
                   (err, s3) \<Rightarrow>
                     ((err, case mst_objLocation mst of
                              None \<Rightarrow> options dec
                            | Some ls \<Rightarrow> (options dec)\<lparr>opt_dataToDelete := Some ls\<rparr>), s3)))
       \<and> (delOptions dec = None
            \<or> (\<exists>d. delOptions dec = Some d
                   \<and> (\<not> truthy_bool (del_deleteData d)
                        \<or> del_versionId d = mst_versionId mst))
          \<longrightarrow> (\<forall>g. versioningPreprocessing nv (md\<lparr>getObjectMD := g\<rparr>) bn bucketMD key objMD s
                    = versioningPreprocessing nv md bn bucketMD key objMD s))
       \<and> (\<forall>d s2. delOptions dec = Some d \<and> truthy_bool (del_deleteData d)
               \<and> del_versionId d \<noteq> mst_versionId mst
               \<and> getObjectMD md bn key d s1 = (Inl NoSuchKey, s2)
          \<longrightarrow> versioningPreprocessing nv md bn bucketMD key objMD s =
                (case deleteNullVersion md bn key (delOptions dec) s2 of
                   (err, s3) \<Rightarrow> ((err, options dec), s3)))
       \<and> (\<forall>d e s2. delOptions dec = Some d \<and> truthy_bool (del_deleteData d)
               \<and> del_versionId d \<noteq> mst_versionId mst
               \<and> getObjectMD md bn key d s1 = (Inl e, s2) \<and> e \<noteq> NoSuchKey
          \<longrightarrow> versioningPreprocessing nv md bn bucketMD key objMD s =
                ((Some e, options dec), s2))
       \<and> (\<forall>d versionMD s2. delOptions dec = Some d \<and> truthy_bool (del_deleteData d)
               \<and> del_versionId d \<noteq> mst_versionId mst
               \<and> getObjectMD md bn key d s1 = (Inr versionMD, s2)
          \<longrightarrow> versioningPreprocessing nv md bn bucketMD key objMD s =
                (case deleteNullVersion md bn key (delOptions dec) s2 of
                   (err, s3) \<Rightarrow>
                     ((err, case md_location versionMD of
                              None \<Rightarrow> options dec
                            | Some l \<Rightarrow> (options dec)\<lparr>opt_dataToDelete := Some (toArray l)\<rparr>),
                      s3)))"
proof -
  have vp: "versioningPreprocessing nv md bn bucketMD key objMD s =
      (case getNullVersionLocationsToDelete md bn key (delOptions dec) mst (options dec) s1 of
         ((Some err, opts), s2) \<Rightarrow> ((Some err, opts), s2)
       | ((None, opts), s2) \<Rightarrow>
           (case deleteNullVersion md bn key (delOptions dec) s2 of
              (err, s3) \<Rightarrow> ((err, opts), s3)))"
    using st unfolding mst dec by (simp add: versioningPreprocessing_series[OF cfg] Let_def)
  have nr: "delOptions dec = None
            \<or> (\<exists>d. delOptions dec = Some d
                   \<and> (\<not> truthy_bool (del_deleteData d)
                        \<or> del_versionId d = mst_versionId mst))
          \<longrightarrow> (\<forall>g. versioningPreprocessing nv (md\<lparr>getObjectMD := g\<rparr>) bn bucketMD key objMD s
                    = versioningPreprocessing nv md bn bucketMD key objMD s)"
    unfolding mst dec
  proof (intro impI allI)
    fix g
    assume "delOptions (processVersioningState nv (getMasterState objMD) (Status vCfg)) = None
            \<or> (\<exists>d. delOptions (processVersioningState nv (getMasterState objMD) (Status vCfg))
                      = Some d
                   \<and> (\<not> truthy_bool (del_deleteData d)
                        \<or> del_versionId d = mst_versionId (getMasterState objMD)))"
    then show "versioningPreprocessing nv (md\<lparr>getObjectMD := g\<rparr>) bn bucketMD key objMD s
               = versioningPreprocessing nv md bn bucketMD key objMD s"
      by (rule versioningPreprocessing_no_read[OF cfg])
  qed
  have rest: "(delOptions dec = None
            \<or> (\<exists>d. delOptions dec = Some d \<and> \<not> truthy_bool (del_deleteData d))
          \<longrightarrow> versioningPreprocessing nv md bn bucketMD key objMD s =
                (case deleteNullVersion md bn key (delOptions dec) s1 of
                   (err, s3) \<Rightarrow> ((err, options dec), s3)))
       \<and> (\<forall>d. delOptions dec = Some d \<and> truthy_bool (del_deleteData d)
               \<and> del_versionId d = mst_versionId mst
          \<longrightarrow> versioningPreprocessing nv md bn bucketMD key objMD s =
                (case deleteNullVersion md bn key (delOptions dec) s1 of
                   (err, s3) \<Rightarrow>
                     ((err, case mst_objLocation mst of
                              None \<Rightarrow> options dec
                            | Some ls \<Rightarrow> (options dec)\<lparr>opt_dataToDelete := Some ls\<rparr>), s3)))
       \<and> (\<forall>d s2. delOptions dec = Some d \<and> truthy_bool (del_deleteData d)
               \<and> del_versionId d \<noteq> mst_versionId mst
               \<and> getObjectMD md bn key d s1 = (Inl NoSuchKey, s2)
          \<longrightarrow> versioningPreprocessing nv md bn bucketMD key objMD s =
                (case deleteNullVersion md bn key (delOptions dec) s2 of
                   (err, s3) \<Rightarrow> ((err, options dec), s3)))
       \<and> (\<forall>d e s2. delOptions dec = Some d \<and> truthy_bool (del_deleteData d)
               \<and> del_versionId d \<noteq> mst_versionId mst
               \<and> getObjectMD md bn key d s1 = (Inl e, s2) \<and> e \<noteq> NoSuchKey
          \<longrightarrow> versioningPreprocessing nv md bn bucketMD key objMD s =
                ((Some e, options dec), s2))
       \<and> (\<forall>d versionMD s2. delOptions dec = Some d \<and> truthy_bool (del_deleteData d)
               \<and> del_versionId d \<noteq> mst_versionId mst
               \<and> getObjectMD md bn key d s1 = (Inr versionMD, s2)
          \<longrightarrow> versioningPreprocessing nv md bn bucketMD key objMD s =
                (case deleteNullVersion md bn key (delOptions dec) s2 of
                   (err, s3) \<Rightarrow>
                     ((err, case md_location versionMD of
                              None \<Rightarrow> options dec
                            | Some l \<Rightarrow> (options dec)\<lparr>opt_dataToDelete := Some (toArray l)\<rparr>),
                      s3)))"
    unfolding vp
    by (auto simp: step2_skipped step2_master step2_read[where r="Inl _"]
          step2_read[where r="Inr _"])
  from rest nr show ?thesis by blast
qed

subsection \<open>The theorems at concrete inputs\<close>

lemmas example_defs = legacyNullMD_def preVersioningMD_def versionedMD_def selfReferringMD_def
  enabledBucket_def suspendedBucket_def emptyObjMD_def getVersioningConfiguration_def

lemmas run_defs = getMasterState_def toArray_def truthy_bool_def truthy_str_def Let_def

theorem getMasterState_contract_witness:
  "getMasterState (Some versionedMD) =
     \<lparr>mst_exists = Some True, mst_versionId = Some ''v2'', mst_uploadId = None,
      mst_isNull = None, mst_isNullKey = None, mst_nullVersionId = Some ''v1'',
      mst_nullUploadId = Some ''u1'',
      mst_objLocation = Some [Location ''loc2'', Location ''loc3'']\<rparr>
   \<and> mst_objLocation (getMasterState (Some preVersioningMD)) = Some [Location ''loc1'']"
  using getMasterState_contract[of versionedMD] getMasterState_contract[of preVersioningMD]
  by (simp add: example_defs)

theorem processVersioningState_null_master_suspended_witness:
  "truthy_bool (mst_isNull (getMasterState (Some legacyNullMD)))
   \<and> options (processVersioningState ''inf'' (getMasterState (Some legacyNullMD)) ''Suspended'')
       = \<lparr>opt_versionId = Some '''', opt_isNull = Some True, opt_versioning = None,
          opt_dataToDelete = Some [Location ''loc1'']\<rparr>
   \<and> delOptions (processVersioningState ''inf'' (getMasterState (Some legacyNullMD))
        ''Suspended'')
       = Some \<lparr>del_versionId = Some ''v1'', del_deleteData = None, del_replayId = None\<rparr>
   \<and> \<not> truthy_str (mst_versionId (getMasterState None))
   \<and> delOptions (processVersioningState ''inf'' (getMasterState None) ''Suspended'') = None"
  using processVersioningState_null_master_suspended
          [of "getMasterState (Some legacyNullMD)" "''inf''"]
        processVersioningState_null_master_suspended [of "getMasterState None" "''inf''"]
  by (simp add: example_defs run_defs)

theorem processVersioningState_null_master_enabled_witness:
  "\<not> truthy_str (mst_versionId (getMasterState (Some preVersioningMD)))
   \<and> opt_versioning (options (processVersioningState ''inf''
        (getMasterState (Some preVersioningMD)) ''Enabled'')) = Some True
   \<and> storeOptions (processVersioningState ''inf'' (getMasterState (Some preVersioningMD))
        ''Enabled'')
       = Some \<lparr>so_versionId = Some ''inf'', so_isNullKey = Some True\<rparr>
   \<and> storeOptions (processVersioningState ''inf'' (getMasterState (Some legacyNullMD))
        ''Enabled'')
       = Some \<lparr>so_versionId = Some ''v1'', so_isNullKey = Some True\<rparr>
   \<and> storeOptions (processVersioningState ''inf'' (getMasterState None) ''Enabled'') = None"
  using processVersioningState_null_master_enabled
          [of "getMasterState (Some preVersioningMD)" "''inf''"]
        processVersioningState_null_master_enabled
          [of "getMasterState (Some legacyNullMD)" "''inf''"]
        processVersioningState_null_master_enabled [of "getMasterState None" "''inf''"]
  by (simp add: example_defs run_defs)

theorem processVersioningState_legacy_migration_witness:
  "truthy_str (mst_versionId (getMasterState (Some versionedMD)))
   \<and> \<not> truthy_bool (mst_isNull (getMasterState (Some versionedMD)))
   \<and> \<not> truthy_bool (mst_isNullKey (getMasterState (Some versionedMD)))
   \<and> truthy_str (mst_nullVersionId (getMasterState (Some versionedMD)))
   \<and> storeOptions (processVersioningState ''inf'' (getMasterState (Some versionedMD))
        ''Enabled'')
       = Some \<lparr>so_versionId = Some ''v1'', so_isNullKey = Some True\<rparr>
   \<and> delOptions (processVersioningState ''inf'' (getMasterState (Some versionedMD))
        ''Enabled'')
       = Some \<lparr>del_versionId = Some ''v1'', del_deleteData = None, del_replayId = None\<rparr>"
  using processVersioningState_legacy_migration
          [of "getMasterState (Some versionedMD)" "''inf''"]
  by (simp add: example_defs run_defs)

theorem processVersioningState_versioned_master_suspended_witness:
  "truthy_str (mst_versionId (getMasterState (Some versionedMD)))
   \<and> \<not> truthy_bool (mst_isNull (getMasterState (Some versionedMD)))
   \<and> \<not> truthy_bool (mst_isNullKey (getMasterState (Some versionedMD)))
   \<and> options (processVersioningState ''inf'' (getMasterState (Some versionedMD))
        ''Suspended'')
       = \<lparr>opt_versionId = Some '''', opt_isNull = Some True, opt_versioning = None,
          opt_dataToDelete = None\<rparr>
   \<and> delOptions (processVersioningState ''inf'' (getMasterState (Some versionedMD))
        ''Suspended'')
       = Some \<lparr>del_versionId = Some ''v1'', del_deleteData = Some True,
               del_replayId = Some ''u1''\<rparr>
   \<and> delOptions (processVersioningState ''inf''
        (getMasterState (Some (versionedMD\<lparr>md_nullVersionId := None\<rparr>))) ''Suspended'')
       = Some \<lparr>del_versionId = Some ''null'', del_deleteData = Some True,
               del_replayId = None\<rparr>"
  using processVersioningState_versioned_master_suspended
          [of "getMasterState (Some versionedMD)" "''inf''"]
        processVersioningState_versioned_master_suspended
          [of "getMasterState (Some (versionedMD\<lparr>md_nullVersionId := None\<rparr>))" "''inf''"]
  by (simp add: example_defs run_defs)

theorem processVersioningState_storeOptions_invariant_witness:
  "storeOptions (processVersioningState ''inf'' (getMasterState (Some versionedMD))
        ''Enabled'')
     = Some \<lparr>so_versionId = Some ''v1'', so_isNullKey = Some True\<rparr>
   \<and> so_isNullKey \<lparr>so_versionId = Some ''v1'', so_isNullKey = Some True\<rparr> = Some True
   \<and> opt_versioning (options (processVersioningState ''inf''
        (getMasterState (Some versionedMD)) ''Enabled'')) = Some True
   \<and> (case delOptions (processVersioningState ''inf'' (getMasterState (Some versionedMD))
               ''Enabled'') of
         None \<Rightarrow> True
       | Some d \<Rightarrow> \<not> truthy_bool (del_deleteData d))"
  using processVersioningState_storeOptions_invariant
          [of "''inf''" "getMasterState (Some versionedMD)" "''Enabled''"
              "\<lparr>so_versionId = Some ''v1'', so_isNullKey = Some True\<rparr>"]
  by (simp add: example_defs run_defs pvs_defs)

theorem preprocessingVersioningDelete_deleteData_witness:
  "preprocessingVersioningDelete ''bucket'' enabledBucket versionedMD None
     = (None, \<lparr>dd_deleteData = None, dd_replayId = None, dd_versionId = None,
               dd_isNull = Some True\<rparr>)
   \<and> preprocessingVersioningDelete ''bucket'' enabledBucket
        (versionedMD\<lparr>md_uploadId := Some ''u7''\<rparr>) (Some ''v2'')
     = (None, \<lparr>dd_deleteData = Some True, dd_replayId = Some ''u7'',
               dd_versionId = Some ''v2'', dd_isNull = None\<rparr>)
   \<and> preprocessingVersioningDelete ''bucket'' \<lparr>bkt_versioningConfiguration = None\<rparr>
        preVersioningMD None
     = (None, \<lparr>dd_deleteData = Some True, dd_replayId = None, dd_versionId = None,
               dd_isNull = None\<rparr>)"
  using preprocessingVersioningDelete_deleteData
          [of "''bucket''" enabledBucket versionedMD None]
        preprocessingVersioningDelete_deleteData
          [of "''bucket''" enabledBucket "versionedMD\<lparr>md_uploadId := Some ''u7''\<rparr>"
              "Some ''v2''"]
        preprocessingVersioningDelete_deleteData
          [of "''bucket''" "\<lparr>bkt_versioningConfiguration = None\<rparr>" preVersioningMD None]
  by (simp add: example_defs run_defs pvd_defs)

theorem preprocessingVersioningDelete_null_request_witness:
  "getVersioningConfiguration enabledBucket = Some \<lparr>Status = ''Enabled''\<rparr>
   \<and> snd (preprocessingVersioningDelete ''bucket'' enabledBucket preVersioningMD
            (Some ''null''))
     = \<lparr>dd_deleteData = Some True, dd_replayId = None, dd_versionId = None,
        dd_isNull = None\<rparr>
   \<and> dd_versionId (snd (preprocessingVersioningDelete ''bucket'' enabledBucket legacyNullMD
        (Some ''null''))) = Some ''v1''
   \<and> dd_versionId (snd (preprocessingVersioningDelete ''bucket'' enabledBucket versionedMD
        (Some ''null''))) = Some ''null''"
  using preprocessingVersioningDelete_null_request
          [of enabledBucket "\<lparr>Status = ''Enabled''\<rparr>" "Some ''null''" "''bucket''"
              preVersioningMD]
        preprocessingVersioningDelete_null_request
          [of enabledBucket "\<lparr>Status = ''Enabled''\<rparr>" "Some ''null''" "''bucket''"
              legacyNullMD]
        preprocessingVersioningDelete_null_request
          [of enabledBucket "\<lparr>Status = ''Enabled''\<rparr>" "Some ''null''" "''bucket''"
              versionedMD]
  by (simp add: example_defs run_defs pvd_defs)

theorem versioningPreprocessing_failures_witness:
  "versioningPreprocessing ''inf''
       (recordingStore (Some (ArsenalError ''ServiceUnavailable'')) (Inl NoSuchKey) None)
       ''bucket'' enabledBucket ''key'' (Some preVersioningMD) []
     = ((Some (ArsenalError ''ServiceUnavailable''),
         \<lparr>opt_versionId = None, opt_isNull = None, opt_versioning = Some True,
          opt_dataToDelete = None\<rparr>),
        [PutCall ''bucket'' ''key''
           (preVersioningMD\<lparr>md_versionId := Some ''inf'', md_isNullKey := Some True\<rparr>)
           ''null''])
   \<and> versioningPreprocessing ''inf''
       (recordingStore None (Inr legacyNullMD) (Some NoSuchKey))
       ''bucket'' suspendedBucket ''key'' (Some versionedMD) []
     = ((None,
         \<lparr>opt_versionId = Some '''', opt_isNull = Some True, opt_versioning = None,
          opt_dataToDelete = Some [Location ''loc1'']\<rparr>),
        [GetCall ''bucket'' ''key''
           \<lparr>del_versionId = Some ''v1'', del_deleteData = Some True,
            del_replayId = Some ''u1''\<rparr>,
         DeleteCall ''bucket'' ''key''
           \<lparr>del_versionId = Some ''v1'', del_deleteData = Some True,
            del_replayId = Some ''u1''\<rparr>])
   \<and> versioningPreprocessing ''inf''
       (recordingStore None (Inr legacyNullMD) (Some (ArsenalError ''ServiceUnavailable'')))
       ''bucket'' suspendedBucket ''key'' (Some versionedMD) []
     = ((Some InternalError,
         \<lparr>opt_versionId = Some '''', opt_isNull = Some True, opt_versioning = None,
          opt_dataToDelete = Some [Location ''loc1'']\<rparr>),
        [GetCall ''bucket'' ''key''
           \<lparr>del_versionId = Some ''v1'', del_deleteData = Some True,
            del_replayId = Some ''u1''\<rparr>,
         DeleteCall ''bucket'' ''key''
           \<lparr>del_versionId = Some ''v1'', del_deleteData = Some True,
            del_replayId = Some ''u1''\<rparr>])"
proof -
  have en: "getVersioningConfiguration enabledBucket = Some \<lparr>Status = ''Enabled''\<rparr>"
    and su: "getVersioningConfiguration suspendedBucket = Some \<lparr>Status = ''Suspended''\<rparr>"
    by (simp_all add: example_defs)
  note store_fails =
    versioningPreprocessing_failures[OF en refl, THEN conjunct1, rule_format,
      where nv = "''inf''" and objMD = "Some preVersioningMD"
        and md = "recordingStore (Some (ArsenalError ''ServiceUnavailable'')) (Inl NoSuchKey) None"
        and bn = "''bucket''" and key = "''key''" and s = "[]"]
  note delete_fails =
    versioningPreprocessing_failures[OF su refl, THEN conjunct2, rule_format,
      where nv = "''inf''" and objMD = "Some versionedMD" and bn = "''bucket''"
        and key = "''key''" and s = "[]"]
  have 1: "versioningPreprocessing ''inf''
       (recordingStore (Some (ArsenalError ''ServiceUnavailable'')) (Inl NoSuchKey) None)
       ''bucket'' enabledBucket ''key'' (Some preVersioningMD) []
     = ((Some (ArsenalError ''ServiceUnavailable''),
         \<lparr>opt_versionId = None, opt_isNull = None, opt_versioning = Some True,
          opt_dataToDelete = None\<rparr>),
        [PutCall ''bucket'' ''key''
           (preVersioningMD\<lparr>md_versionId := Some ''inf'', md_isNullKey := Some True\<rparr>)
           ''null''])"
    using store_fails[of "\<lparr>so_versionId = Some ''inf'', so_isNullKey = Some True\<rparr>"
        "ArsenalError ''ServiceUnavailable''"
        "[PutCall ''bucket'' ''key''
           (preVersioningMD\<lparr>md_versionId := Some ''inf'', md_isNullKey := Some True\<rparr>)
           ''null'']"]
    by (simp add: example_defs run_defs pvs_defs recordingStore_def assignStoreOptions_def)
  have 2: "versioningPreprocessing ''inf''
       (recordingStore None (Inr legacyNullMD) (Some e))
       ''bucket'' suspendedBucket ''key'' (Some versionedMD) []
     = ((if e = NoSuchKey then None else Some InternalError,
         \<lparr>opt_versionId = Some '''', opt_isNull = Some True, opt_versioning = None,
          opt_dataToDelete = Some [Location ''loc1'']\<rparr>),
        [GetCall ''bucket'' ''key''
           \<lparr>del_versionId = Some ''v1'', del_deleteData = Some True,
            del_replayId = Some ''u1''\<rparr>,
         DeleteCall ''bucket'' ''key''
           \<lparr>del_versionId = Some ''v1'', del_deleteData = Some True,
            del_replayId = Some ''u1''\<rparr>])" for e
    using delete_fails[of "recordingStore None (Inr legacyNullMD) (Some e)" "[]"
        "\<lparr>opt_versionId = Some '''', opt_isNull = Some True, opt_versioning = None,
          opt_dataToDelete = Some [Location ''loc1'']\<rparr>"
        "[GetCall ''bucket'' ''key''
           \<lparr>del_versionId = Some ''v1'', del_deleteData = Some True,
            del_replayId = Some ''u1''\<rparr>]"
        "\<lparr>del_versionId = Some ''v1'', del_deleteData = Some True,
            del_replayId = Some ''u1''\<rparr>"
        e
        "[GetCall ''bucket'' ''key''
           \<lparr>del_versionId = Some ''v1'', del_deleteData = Some True,
            del_replayId = Some ''u1''\<rparr>,
         DeleteCall ''bucket'' ''key''
           \<lparr>del_versionId = Some ''v1'', del_deleteData = Some True,
            del_replayId = Some ''u1''\<rparr>]"]
    by (simp add: example_defs run_defs pvs_defs recordingStore_def storeVersion_def
          getNullVersionLocationsToDelete_def u_getNullVersionLocationsToDelete_def)
  from 1 2[of NoSuchKey] 2[of "ArsenalError ''ServiceUnavailable''"] show ?thesis by simp
qed

theorem versioningPreprocessing_resolve_locations_witness:
  "versioningPreprocessing ''inf'' (recordingStore None (Inl NoSuchKey) None)
       ''bucket'' enabledBucket ''key'' (Some versionedMD) []
     = ((None,
         \<lparr>opt_versionId = None, opt_isNull = None, opt_versioning = Some True,
          opt_dataToDelete = None\<rparr>),
        [PutCall ''bucket'' ''key''
           (versionedMD\<lparr>md_versionId := Some ''v1'', md_isNullKey := Some True\<rparr>) ''null'',
         DeleteCall ''bucket'' ''key''
           \<lparr>del_versionId = Some ''v1'', del_deleteData = None, del_replayId = None\<rparr>])
   \<and> versioningPreprocessing ''inf''
       (recordingStore None (Inl (ArsenalError ''ServiceUnavailable'')) None)
       ''bucket'' suspendedBucket ''key'' (Some selfReferringMD) []
     = ((None,
         \<lparr>opt_versionId = Some '''', opt_isNull = Some True, opt_versioning = None,
          opt_dataToDelete = Some [Location ''loc2'', Location ''loc3'']\<rparr>),
        [DeleteCall ''bucket'' ''key''
           \<lparr>del_versionId = Some ''v2'', del_deleteData = Some True,
            del_replayId = Some ''u1''\<rparr>])
   \<and> versioningPreprocessing ''inf''
       ((recordingStore None (Inl (ArsenalError ''ServiceUnavailable'')) None)
          \<lparr>getObjectMD := getObjectMD (recordingStore None (Inr legacyNullMD) None)\<rparr>)
       ''bucket'' suspendedBucket ''key'' (Some selfReferringMD) []
     = versioningPreprocessing ''inf''
       (recordingStore None (Inl (ArsenalError ''ServiceUnavailable'')) None)
       ''bucket'' suspendedBucket ''key'' (Some selfReferringMD) []
   \<and> versioningPreprocessing ''inf'' (recordingStore None (Inl NoSuchKey) None)
       ''bucket'' suspendedBucket ''key'' (Some versionedMD) []
     = ((None,
         \<lparr>opt_versionId = Some '''', opt_isNull = Some True, opt_versioning = None,
          opt_dataToDelete = None\<rparr>),
        [GetCall ''bucket'' ''key''
           \<lparr>del_versionId = Some ''v1'', del_deleteData = Some True,
            del_replayId = Some ''u1''\<rparr>,
         DeleteCall ''bucket'' ''key''
           \<lparr>del_versionId = Some ''v1'', del_deleteData = Some True,
            del_replayId = Some ''u1''\<rparr>])
   \<and> versioningPreprocessing ''inf''
       (recordingStore None (Inl (ArsenalError ''ServiceUnavailable'')) None)
       ''bucket'' suspendedBucket ''key'' (Some versionedMD) []
     = ((Some (ArsenalError ''ServiceUnavailable''),
         \<lparr>opt_versionId = Some '''', opt_isNull = Some True, opt_versioning = None,
          opt_dataToDelete = None\<rparr>),
        [GetCall ''bucket'' ''key''
           \<lparr>del_versionId = Some ''v1'', del_deleteData = Some True,
            del_replayId = Some ''u1''\<rparr>])
   \<and> versioningPreprocessing ''inf'' (recordingStore None (Inr legacyNullMD) None)
       ''bucket'' suspendedBucket ''key'' (Some versionedMD) []
     = ((None,
         \<lparr>opt_versionId = Some '''', opt_isNull = Some True, opt_versioning = None,
          opt_dataToDelete = Some [Location ''loc1'']\<rparr>),
        [GetCall ''bucket'' ''key''
           \<lparr>del_versionId = Some ''v1'', del_deleteData = Some True,
            del_replayId = Some ''u1''\<rparr>,
         DeleteCall ''bucket'' ''key''
           \<lparr>del_versionId = Some ''v1'', del_deleteData = Some True,
            del_replayId = Some ''u1''\<rparr>])"
proof -
  have en: "getVersioningConfiguration enabledBucket = Some \<lparr>Status = ''Enabled''\<rparr>"
    and su: "getVersioningConfiguration suspendedBucket = Some \<lparr>Status = ''Suspended''\<rparr>"
    by (simp_all add: example_defs)
  let ?busy = "Inl (ArsenalError ''ServiceUnavailable'') :: error + objMD"
  have st_en: "storeVersion (recordingStore None (Inl NoSuchKey) None) ''bucket'' ''key''
      (Some versionedMD)
      (storeOptions (processVersioningState ''inf'' (getMasterState (Some versionedMD))
         (Status \<lparr>Status = ''Enabled''\<rparr>))) []
    = (None, [PutCall ''bucket'' ''key''
           (versionedMD\<lparr>md_versionId := Some ''v1'', md_isNullKey := Some True\<rparr>) ''null''])"
    by (simp add: example_defs run_defs pvs_defs recordingStore_def storeVersion_def
          u_storeNullVersionMD_def assignStoreOptions_def)
  have st_su: "storeVersion (recordingStore None r None) ''bucket'' ''key'' (Some m)
      (storeOptions (processVersioningState ''inf'' (getMasterState (Some m))
         (Status \<lparr>Status = ''Suspended''\<rparr>))) []
    = (None, [])" if "m = versionedMD \<or> m = selfReferringMD" for r m
    using that
    by (auto simp add: example_defs run_defs pvs_defs recordingStore_def storeVersion_def)
  note skipped =
    versioningPreprocessing_resolve_locations[OF en refl refl st_en, THEN conjunct1]
  note own =
    versioningPreprocessing_resolve_locations[OF su refl refl st_su[of selfReferringMD ?busy],
      THEN conjunct2, THEN conjunct1, rule_format,
      of "\<lparr>del_versionId = Some ''v2'', del_deleteData = Some True,
            del_replayId = Some ''u1''\<rparr>"]
  note no_read =
    versioningPreprocessing_resolve_locations[OF su refl refl st_su[of selfReferringMD ?busy],
      THEN conjunct2, THEN conjunct2, THEN conjunct1, rule_format,
      of "getObjectMD (recordingStore None (Inr legacyNullMD) None)"]
  note gone =
    versioningPreprocessing_resolve_locations[OF su refl refl
      st_su[of versionedMD "Inl NoSuchKey"],
      THEN conjunct2, THEN conjunct2, THEN conjunct2, THEN conjunct1, rule_format,
      of "\<lparr>del_versionId = Some ''v1'', del_deleteData = Some True,
            del_replayId = Some ''u1''\<rparr>"
         "[GetCall ''bucket'' ''key''
           \<lparr>del_versionId = Some ''v1'', del_deleteData = Some True,
            del_replayId = Some ''u1''\<rparr>]"]
  note failed =
    versioningPreprocessing_resolve_locations[OF su refl refl st_su[of versionedMD ?busy],
      THEN conjunct2, THEN conjunct2, THEN conjunct2, THEN conjunct2, THEN conjunct1,
      rule_format,
      of "\<lparr>del_versionId = Some ''v1'', del_deleteData = Some True,
            del_replayId = Some ''u1''\<rparr>"
         "ArsenalError ''ServiceUnavailable''"
         "[GetCall ''bucket'' ''key''
           \<lparr>del_versionId = Some ''v1'', del_deleteData = Some True,
            del_replayId = Some ''u1''\<rparr>]"]
  note found =
    versioningPreprocessing_resolve_locations[OF su refl refl
      st_su[of versionedMD "Inr legacyNullMD"],
      THEN conjunct2, THEN conjunct2, THEN conjunct2, THEN conjunct2, THEN conjunct2,
      rule_format,
      of "\<lparr>del_versionId = Some ''v1'', del_deleteData = Some True,
            del_replayId = Some ''u1''\<rparr>"
         legacyNullMD
         "[GetCall ''bucket'' ''key''
           \<lparr>del_versionId = Some ''v1'', del_deleteData = Some True,
            del_replayId = Some ''u1''\<rparr>]"]
  show ?thesis
    using skipped own no_read gone failed found
    by (simp add: example_defs run_defs pvs_defs recordingStore_def deleteNullVersion_def
          u_deleteNullVersionMD_def)
qed

end
